theory Spec2Isabelle
  imports Main
begin

section \<open>Exceptions, external calls and the environment\<close>

text \<open>
  The six scripts under \<^verbatim>\<open>testsprite_tests\<close> are straight-line asynchronous Python
  functions \<^verbatim>\<open>run_test\<close> that drive a browser through the Playwright API.  Every
  operation on the browser may raise; which ones do is decided by the environment, not by the
  script.  A run is therefore modelled as a function of a \<^emph>\<open>world\<close> (the environment's
  answers) that returns the outcome of \<^verbatim>\<open>run_test\<close> together with the sequence of
  calls the script issued.
\<close>

datatype exn =
    ApiError            \<comment> \<open>\<^verbatim>\<open>async_api.Error\<close>\<close>
  | ApiTimeoutError     \<comment> \<open>\<^verbatim>\<open>async_api.TimeoutError\<close>, a subclass of \<^verbatim>\<open>async_api.Error\<close>\<close>
  | NameError
  | AttributeError
  | AssertionError
  | TypeError
  | IndexError
  | OtherException      \<comment> \<open>any other exception, e.g. \<^verbatim>\<open>OSError\<close> or \<^verbatim>\<open>CancelledError\<close>\<close>

text \<open>What \<^verbatim>\<open>except async_api.Error\<close> catches.\<close>

fun is_api_error :: "exn \<Rightarrow> bool" where
  "is_api_error ApiError = True"
| "is_api_error ApiTimeoutError = True"
| "is_api_error _ = False"

text \<open>
  A locator: the optional \<^verbatim>\<open>frame_locator\<close> selector, the \<^verbatim>\<open>locator\<close> selector and the
  optional \<^verbatim>\<open>nth\<close> index.  Building a locator contacts nothing; only the action on it does.
\<close>

datatype locator = Locator (frame_css: "string option") (selector: string) (nth_index: "nat option")

datatype call =
    PlaywrightStart
  | ChromiumLaunch bool "string list"        \<comment> \<open>headless, args\<close>
  | NewContext
  | SetDefaultTimeout nat
  | NewPage
  | Goto string "string option" nat          \<comment> \<open>url, wait_until, timeout\<close>
  | PageWaitForLoadState string nat
  | FrameWaitForLoadState nat string nat     \<comment> \<open>index of the frame in \<^verbatim>\<open>page.frames\<close>, state, timeout\<close>
  | MouseWheel int int
  | ContextPagesLast                         \<comment> \<open>\<^verbatim>\<open>context.pages[-1]\<close>\<close>
  | WaitForTimeout nat
  | Click locator nat                        \<comment> \<open>locator, timeout\<close>
  | TextContent locator
  | AsyncioSleep nat
  | ContextClose
  | BrowserClose
  | PlaywrightStop

text \<open>
  The environment.  Its answers may depend on everything the script has done so far, so each
  is a function of the calls issued before: whether a call raises, how many frames
  \<^verbatim>\<open>page.frames\<close> holds, and what \<^verbatim>\<open>text_content()\<close> returns (it may return \<^verbatim>\<open>None\<close>).
\<close>

record world =
  raises :: "call list \<Rightarrow> call \<Rightarrow> exn option"
  frame_count :: "call list \<Rightarrow> nat"
  text_of :: "call list \<Rightarrow> locator \<Rightarrow> string option"

text \<open>
  An action threads the list of calls issued so far and returns an exception (\<open>Inl\<close>) or a
  value (\<open>Inr\<close>).
\<close>

type_synonym 'a act = "call list \<Rightarrow> (exn + 'a) \<times> call list"

definition ret :: "'a \<Rightarrow> 'a act" where
  "ret x t = (Inr x, t)"

definition raise :: "exn \<Rightarrow> 'a act" where
  "raise e t = (Inl e, t)"

definition bind :: "'a act \<Rightarrow> ('a \<Rightarrow> 'b act) \<Rightarrow> 'b act" where
  "bind m k t = (case m t of (Inl e, t') \<Rightarrow> (Inl e, t') | (Inr x, t') \<Rightarrow> k x t')"

definition seq :: "unit act \<Rightarrow> 'a act \<Rightarrow> 'a act" where
  "seq m n = bind m (\<lambda>_. n)"

text \<open>A block of statements: each runs after the one before, the first raise leaves the block.\<close>

fun block :: "unit act list \<Rightarrow> unit act" where
  "block [] = ret ()"
| "block (m # ms) = seq m (block ms)"

text \<open>An awaited call on the browser: it is issued, then raises or returns.\<close>

definition invoke :: "world \<Rightarrow> call \<Rightarrow> unit act" where
  "invoke w c t = (case raises w t c of Some e \<Rightarrow> (Inl e, t @ [c]) | None \<Rightarrow> (Inr (), t @ [c]))"

text \<open>\<^verbatim>\<open>try: m except async_api.Error: pass\<close>\<close>

definition try_except_api_pass :: "unit act \<Rightarrow> unit act" where
  "try_except_api_pass m t =
     (case m t of
        (Inl e, t') \<Rightarrow> if is_api_error e then (Inr (), t') else (Inl e, t')
      | (Inr u, t') \<Rightarrow> (Inr u, t'))"

text \<open>\<^verbatim>\<open>for x in xs: body\<close>\<close>

fun for_each :: "'a list \<Rightarrow> ('a \<Rightarrow> unit act) \<Rightarrow> unit act" where
  "for_each [] body = ret ()"
| "for_each (x # xs) body = seq (body x) (for_each xs body)"

text \<open>\<^verbatim>\<open>assert c\<close>\<close>

definition py_assert :: "bool \<Rightarrow> unit act" where
  "py_assert c = (if c then ret () else raise AssertionError)"

section \<open>The scaffolding shared by every script\<close>

datatype handle = Handle

text \<open>The three variables the \<^verbatim>\<open>finally\<close> block reads; each is \<^verbatim>\<open>None\<close> until assigned.\<close>

record vars =
  pw_var :: "handle option"
  browser_var :: "handle option"
  context_var :: "handle option"

definition no_vars :: vars where
  "no_vars = \<lparr> pw_var = None, browser_var = None, context_var = None \<rparr>"

definition launch_args :: "string list" where
  "launch_args = [''--window-size=1280,720'', ''--disable-dev-shm-usage'', ''--ipc=host'',
     ''--single-process'']"

text \<open>
  Lines 26 to 45 of every script: the default timeout, the page, the first navigation, the
  tolerated wait for the page and the tolerated wait for each frame of \<^verbatim>\<open>page.frames\<close>.
\<close>

definition wait_frames :: "world \<Rightarrow> unit act" where
  "wait_frames w t =
     for_each [0 ..< frame_count w t]
       (\<lambda>i. try_except_api_pass (invoke w (FrameWaitForLoadState i ''domcontentloaded'' 3000))) t"

definition open_page :: "world \<Rightarrow> unit act" where
  "open_page w = block
     [ invoke w (SetDefaultTimeout 5000),
       invoke w NewPage,
       invoke w (Goto ''http://localhost:8081'' (Some ''commit'') 10000),
       try_except_api_pass (invoke w (PageWaitForLoadState ''domcontentloaded'' 3000)),
       wait_frames w ]"

text \<open>
  The \<^verbatim>\<open>try\<close> block.  An assignment happens only when its right-hand side returned, so the
  variables at the exit of the block tell which resources were acquired.
\<close>

definition try_block :: "world \<Rightarrow> unit act \<Rightarrow> call list \<Rightarrow> (exn + unit) \<times> vars \<times> call list" where
  "try_block w interaction t0 =
     (case invoke w PlaywrightStart t0 of
        (Inl e, t1) \<Rightarrow> (Inl e, no_vars, t1)
      | (Inr _, t1) \<Rightarrow>
          (case invoke w (ChromiumLaunch True launch_args) t1 of
             (Inl e, t2) \<Rightarrow> (Inl e, no_vars \<lparr> pw_var := Some Handle \<rparr>, t2)
           | (Inr _, t2) \<Rightarrow>
               (case invoke w NewContext t2 of
                  (Inl e, t3) \<Rightarrow> (Inl e, no_vars \<lparr> pw_var := Some Handle, browser_var := Some Handle \<rparr>, t3)
                | (Inr _, t3) \<Rightarrow>
                    (case seq (open_page w) interaction t3 of
                       (r, t4) \<Rightarrow>
                         (r, \<lparr> pw_var = Some Handle, browser_var = Some Handle, context_var = Some Handle \<rparr>, t4)))))"

text \<open>The \<^verbatim>\<open>finally\<close> block: three guarded closes, none of them protected.\<close>

definition close_if :: "world \<Rightarrow> handle option \<Rightarrow> call \<Rightarrow> unit act" where
  "close_if w v c = (case v of None \<Rightarrow> ret () | Some _ \<Rightarrow> invoke w c)"

definition teardown :: "world \<Rightarrow> vars \<Rightarrow> unit act" where
  "teardown w v = block
     [ close_if w (context_var v) ContextClose,
       close_if w (browser_var v) BrowserClose,
       close_if w (pw_var v) PlaywrightStop ]"

text \<open>
  \<^verbatim>\<open>try: ... finally: ...\<close>: the \<^verbatim>\<open>finally\<close> block runs on every exit of the \<^verbatim>\<open>try\<close> block; an
  exception it raises replaces the outcome of the \<^verbatim>\<open>try\<close> block, otherwise that outcome stands.
\<close>

definition run_test :: "world \<Rightarrow> unit act \<Rightarrow> (exn + unit) \<times> call list" where
  "run_test w interaction =
     (case try_block w interaction [] of
        (r, v, t) \<Rightarrow>
          (case teardown w v t of
             (Inl e, t') \<Rightarrow> (Inl e, t')
           | (Inr _, t') \<Rightarrow> (r, t')))"

section \<open>Statements the scripts are made of\<close>

text \<open>\<^verbatim>\<open>await page.goto(url, timeout=10000)\<close>\<close>

definition goto :: "world \<Rightarrow> string \<Rightarrow> unit act" where
  "goto w url = invoke w (Goto url None 10000)"

text \<open>
  The click step, three source lines: the frame is taken from \<^verbatim>\<open>context.pages[-1]\<close>
  (through \<^verbatim>\<open>frame_locator\<close> when the element lives in an iframe), the locator is built,
  then \<^verbatim>\<open>await page.wait_for_timeout(3000); await elem.click(timeout=5000)\<close>.
  Nothing around the click catches what it raises.
\<close>

definition click_elem :: "world \<Rightarrow> string option \<Rightarrow> string \<Rightarrow> unit act" where
  "click_elem w css xpath = block
     [ invoke w ContextPagesLast,
       invoke w (WaitForTimeout 3000),
       invoke w (Click (Locator css xpath (Some 0)) 5000) ]"

text \<open>
  Name lookup for a name that \<^verbatim>\<open>run_test\<close> never assigns: the module's globals, then the
  builtins.  The module holds the names every module run as a script has, and the three names
  the file binds (two imports and the function); the builtins are those of the
  \<^verbatim>\<open>builtins\<close> module of Python 3.
\<close>

datatype pyobj = PyModule | PyFunction | PyOther | PyInstance "(string \<times> int) list"

definition module_globals :: "(string \<times> pyobj) list" where
  "module_globals =
     [ (''__name__'', PyOther), (''__doc__'', PyOther), (''__package__'', PyOther),
       (''__loader__'', PyOther), (''__spec__'', PyOther), (''__annotations__'', PyOther),
       (''__builtins__'', PyModule), (''__file__'', PyOther), (''__cached__'', PyOther),
       (''asyncio'', PyModule), (''async_api'', PyModule), (''run_test'', PyFunction) ]"

definition builtin_names :: "string list" where
  "builtin_names =
    [
     ''ArithmeticError'', ''AssertionError'', ''AttributeError'', ''BaseException'',
     ''BaseExceptionGroup'', ''BlockingIOError'', ''BrokenPipeError'', ''BufferError'',
     ''BytesWarning'', ''ChildProcessError'', ''ConnectionAbortedError'',
     ''ConnectionError'', ''ConnectionRefusedError'', ''ConnectionResetError'',
     ''DeprecationWarning'', ''EOFError'', ''Ellipsis'', ''EncodingWarning'',
     ''EnvironmentError'', ''Exception'', ''ExceptionGroup'', ''False'',
     ''FileExistsError'', ''FileNotFoundError'', ''FloatingPointError'', ''FutureWarning'',
     ''GeneratorExit'', ''IOError'', ''ImportError'', ''ImportWarning'',
     ''IndentationError'', ''IndexError'', ''InterruptedError'', ''IsADirectoryError'',
     ''KeyError'', ''KeyboardInterrupt'', ''LookupError'', ''MemoryError'',
     ''ModuleNotFoundError'', ''NameError'', ''None'', ''NotADirectoryError'',
     ''NotImplemented'', ''NotImplementedError'', ''OSError'', ''OverflowError'',
     ''PendingDeprecationWarning'', ''PermissionError'', ''ProcessLookupError'',
     ''RecursionError'', ''ReferenceError'', ''ResourceWarning'', ''RuntimeError'',
     ''RuntimeWarning'', ''StopAsyncIteration'', ''StopIteration'', ''SyntaxError'',
     ''SyntaxWarning'', ''SystemError'', ''SystemExit'', ''TabError'', ''TimeoutError'',
     ''True'', ''TypeError'', ''UnboundLocalError'', ''UnicodeDecodeError'',
     ''UnicodeEncodeError'', ''UnicodeError'', ''UnicodeTranslateError'',
     ''UnicodeWarning'', ''UserWarning'', ''ValueError'', ''Warning'',
     ''ZeroDivisionError'', ''__build_class__'', ''__debug__'', ''__doc__'', ''__import__'',
     ''__loader__'', ''__name__'', ''__package__'', ''__spec__'', ''abs'', ''aiter'',
     ''all'', ''anext'', ''any'', ''ascii'', ''bin'', ''bool'', ''breakpoint'',
     ''bytearray'', ''bytes'', ''callable'', ''chr'', ''classmethod'', ''compile'',
     ''complex'', ''copyright'', ''credits'', ''delattr'', ''dict'', ''dir'', ''divmod'',
     ''enumerate'', ''eval'', ''exec'', ''exit'', ''filter'', ''float'', ''format'',
     ''frozenset'', ''getattr'', ''globals'', ''hasattr'', ''hash'', ''help'', ''hex'',
     ''id'', ''input'', ''int'', ''isinstance'', ''issubclass'', ''iter'', ''len'',
     ''license'', ''list'', ''locals'', ''map'', ''max'', ''memoryview'', ''min'', ''next'',
     ''object'', ''oct'', ''open'', ''ord'', ''pow'', ''print'', ''property'', ''quit'',
     ''range'', ''repr'', ''reversed'', ''round'', ''set'', ''setattr'', ''slice'',
     ''sorted'', ''staticmethod'', ''str'', ''sum'', ''super'', ''tuple'', ''type'',
     ''vars'', ''zip'' ]"

definition load_global :: "string \<Rightarrow> pyobj act" where
  "load_global n =
     (case map_of module_globals n of
        Some v \<Rightarrow> ret v
      | None \<Rightarrow> if n \<in> set builtin_names then ret PyFunction else raise NameError)"

fun get_attr :: "pyobj \<Rightarrow> string \<Rightarrow> int act" where
  "get_attr (PyInstance attrs) a = (case map_of attrs a of Some v \<Rightarrow> ret v | None \<Rightarrow> raise AttributeError)"
| "get_attr _ a = raise AttributeError"

text \<open>
  \<^verbatim>\<open>await page.mouse.wheel(0, window.innerHeight)\<close>: the arguments are evaluated before the
  call is made.
\<close>

definition scroll_window :: "world \<Rightarrow> unit act" where
  "scroll_window w =
     bind (load_global ''window'') (\<lambda>window.
     bind (get_attr window ''innerHeight'') (\<lambda>h.
     invoke w (MouseWheel 0 h)))"

text \<open>\<^verbatim>\<open>await page.locator(sel).text_content()\<close> returns a string or \<^verbatim>\<open>None\<close>.\<close>

definition text_content :: "world \<Rightarrow> locator \<Rightarrow> string option act" where
  "text_content w l t =
     (case raises w t (TextContent l) of
        Some e \<Rightarrow> (Inl e, t @ [TextContent l])
      | None \<Rightarrow> (Inr (text_of w t l), t @ [TextContent l]))"

text \<open>\<^verbatim>\<open>sub in s\<close> on strings is the substring test; on \<^verbatim>\<open>None\<close> it raises \<^verbatim>\<open>TypeError\<close>.\<close>

fun starts_with :: "string \<Rightarrow> string \<Rightarrow> bool" where
  "starts_with [] s = True"
| "starts_with (c # cs) [] = False"
| "starts_with (c # cs) (d # ds) = (c = d \<and> starts_with cs ds)"

fun str_contains :: "string \<Rightarrow> string \<Rightarrow> bool" where
  "str_contains sub [] = (sub = [])"
| "str_contains sub (c # cs) = (starts_with sub (c # cs) \<or> str_contains sub cs)"

definition py_in :: "string \<Rightarrow> string option \<Rightarrow> bool act" where
  "py_in sub v = (case v of None \<Rightarrow> raise TypeError | Some s \<Rightarrow> ret (str_contains sub s))"

text \<open>
  One assertion of TC006: the text of the element is read from the page, then asserted to
  contain the expected string.
\<close>

definition assert_text :: "world \<Rightarrow> string \<Rightarrow> unit act" where
  "assert_text w expected =
     bind (text_content w (Locator None (''text='' @ expected) None)) (\<lambda>message.
     bind (py_in expected message) py_assert)"

section \<open>The six scripts\<close>

text \<open>The \<^verbatim>\<open>frame_locator\<close> selectors, as the scripts spell them.\<close>

definition anchor_frame_TC006 :: string where
  \<open>anchor_frame_TC006 =
''html > body > div > form > div > div > div > iframe[title="reCAPTCHA"][role="presentation"][name="a-5llxkbaeefzu"][src="https://www.google.com/recaptcha/api2/anchor?ar=1&k=6LdLLIMbAAAAAIl-KLj9p1ePhM-4LCCDbjtJLqRO&co=aHR0cHM6Ly93d3cuZ29vZ2xlLmNvbTo0NDM.&hl=en&v=_mscDd1KHr60EWWbt2I_ULP0&size=normal&s=YER79_LDgD_AGtdA3crCvMW4-09BOL_xKNkEqBZnZ44MIux7Xm-rHoU7ZexEYp0zSAZ2Y_mynHqOf8MmRvfq-wYNew038z2TBthnaDJW35p2vq5qx9Q5IXeN6LGPSi9aGPbxm46BYF-26CTljft-0TOVpypm_SgZh4dOaQSAEf4DOWWjBCIQCCYcmn8Mf9hm-VCn_IGw5yHNzt9IYfjrVSmrMeTIM_zWvsJesFkhDTQTbugHlYy0B2X37WFCrs9t8lTXoR_X33I7XaZNaTG_LLwy9KwaKyY&anchor-ms=20000&execute-ms=15000&cb=s7rinsy7icng"]''\<close>

definition anchor_frame_TC008 :: string where
  \<open>anchor_frame_TC008 =
''html > body > div > form > div > div > div > iframe[title="reCAPTCHA"][role="presentation"][name="a-58uz6c1dz1fm"][src="https://www.google.com/recaptcha/api2/anchor?ar=1&k=6LdLLIMbAAAAAIl-KLj9p1ePhM-4LCCDbjtJLqRO&co=aHR0cHM6Ly93d3cuZ29vZ2xlLmNvbTo0NDM.&hl=en&v=_mscDd1KHr60EWWbt2I_ULP0&size=normal&s=JXgJ2HwOBA2Gmzgxk9fBmiyKrdftrnB2hxc9Av_wuih3QFzsAa9wHx3CfbfYJimw9sqPSJv7Opq9b4R8pY_dVDO5U0_OMdjd1up-iZuaIOrqIhW7umwj9MSANIrVyj9KurenLREzcMzUocaFrhOlnd8v0mrWGvLUT1zS2NY0zDKsLQL6eBUfDurqdrG4w5ZQBO7NsU_AFhvMuDUSj-ZINzGPV6MJ9vcT21RhtpmkH6G2Fv2JSqVRDRvjQGS-fBr-ldJrX4xBHa-zW96p_9bMIFO1e4Cge1I&anchor-ms=20000&execute-ms=15000&cb=fnvr2misi3s"]''\<close>

definition challenge_frame_TC008 :: string where
  \<open>challenge_frame_TC008 =
''html > body > div:nth-of-type(2) > div:nth-of-type(4) > iframe[title="recaptcha challenge expires in two minutes"][name="c-58uz6c1dz1fm"][src="https://www.google.com/recaptcha/api2/bframe?hl=en&v=_mscDd1KHr60EWWbt2I_ULP0&k=6LdLLIMbAAAAAIl-KLj9p1ePhM-4LCCDbjtJLqRO&bft=0dAFcWeA79im-o0YDCT-CT6AsUs764YVLeH114RzgiOZSYwUzZx3ZwnOJUdCt-Gru7zIOBjJyH6VJyuw4X3BTiv_bjvevjJufdbA"]''\<close>

definition anchor_frame_TC014 :: string where
  \<open>anchor_frame_TC014 =
''html > body > div > form > div > div > div > iframe[title="reCAPTCHA"][role="presentation"][name="a-doonv518d1g5"][src="https://www.google.com/recaptcha/api2/anchor?ar=1&k=6LdLLIMbAAAAAIl-KLj9p1ePhM-4LCCDbjtJLqRO&co=aHR0cHM6Ly93d3cuZ29vZ2xlLmNvbTo0NDM.&hl=en&v=_mscDd1KHr60EWWbt2I_ULP0&size=normal&s=YsW8Jc5fITwV7kohZLU5suW9MUDhaEITZ-cbCWUaiOh-9SnG-CUiI4GLzf_lO8rpgC_4b9C1NUFGBQzr812kYkbqHEvDtN4r8zHSIgkvi-QhMvQozPMoP8k5uCiMfuh6lAy_XVsjeaIhlCn13Z86kQXGRMrO31VXOPgG4rvA34RxgFZTP6ueZHHrog1Zv4RhhgtIlzNrTyBnY-8L-TgCqoNncZIgher3SJxL-9yflhzVtL71s9xJGM-mngtjG3O-jvO5_tm4BHpSNFntJpEBNHsTXCyzXho&anchor-ms=20000&execute-ms=15000&cb=j8f3apj66o39"]''\<close>

definition challenge_frame_TC014 :: string where
  \<open>challenge_frame_TC014 =
''html > body > div:nth-of-type(2) > div:nth-of-type(4) > iframe[title="recaptcha challenge expires in two minutes"][name="c-doonv518d1g5"][src="https://www.google.com/recaptcha/api2/bframe?hl=en&v=_mscDd1KHr60EWWbt2I_ULP0&k=6LdLLIMbAAAAAIl-KLj9p1ePhM-4LCCDbjtJLqRO&bft=0dAFcWeA5WdLjqUcxSuYUdT2PXQZRmCAiX5ULLd9K-Mff2gjavlJzAB1iStWj9ZrBlqJ5CSPlGJmz5WK715eMgQQhLmH-zaF0uaQ"]''\<close>

definition captcha_checkbox :: string where
  "captcha_checkbox = ''xpath=html/body/div[2]/div[3]/div/div/div/span''"

definition captcha_tile :: string where
  "captcha_tile = ''xpath=html/body/div/div/div[2]/div[2]/div/table/tbody/tr/td''"

definition search_result :: string where
  "search_result = ''xpath=html/body/div[3]/div/div[11]/div/div/div[2]/div[2]/div/div/div/div/div/div/div/div/span/a/div/div/span/div/img''"

text \<open>
  Each script is the list of the statements of its \<^verbatim>\<open>try\<close> block after line 45, in source
  order.  The \<^verbatim>\<open>asyncio.sleep(5)\<close> that ends every block is part of the list.
\<close>

definition TC005_steps :: "world \<Rightarrow> unit act list" where
  "TC005_steps w =
     [ scroll_window w,
       goto w ''http://localhost:8081/home'',
       goto w ''http://localhost:8081/dashboard'',
       scroll_window w,
       goto w ''http://localhost:8081'',
       goto w ''http://localhost:8081'',
       scroll_window w,
       goto w ''http://localhost:8081'',
       py_assert False,
       invoke w (AsyncioSleep 5) ]"

definition TC006_assertions :: "world \<Rightarrow> unit act list" where
  "TC006_assertions w =
     [ assert_text w ''You need to enable JavaScript to run this app.'',
       assert_text w ''Data synchronized successfully'',
       assert_text w ''Conflict resolved'' ]"

definition TC006_steps :: "world \<Rightarrow> unit act list" where
  "TC006_steps w =
     [ click_elem w (Some anchor_frame_TC006) captcha_checkbox ]
     @ TC006_assertions w
     @ [ invoke w (AsyncioSleep 5) ]"

definition TC008_steps :: "world \<Rightarrow> unit act list" where
  "TC008_steps w =
     [ scroll_window w,
       scroll_window w,
       scroll_window w,
       scroll_window w,
       goto w ''http://localhost:8081/settings'',
       click_elem w (Some anchor_frame_TC008) captcha_checkbox,
       click_elem w (Some challenge_frame_TC008) captcha_tile,
       click_elem w (Some challenge_frame_TC008) captcha_tile,
       click_elem w (Some challenge_frame_TC008) captcha_tile,
       click_elem w (Some challenge_frame_TC008) captcha_tile,
       click_elem w (Some challenge_frame_TC008) ''xpath=html/body/div/div/div[3]/div[2]/div/div/div/button'',
       click_elem w (Some challenge_frame_TC008) captcha_tile,
       click_elem w (Some challenge_frame_TC008) ''xpath=html/body/div/div/div[3]/div[2]/div/div/div[2]/button'',
       goto w ''http://localhost:8081'',
       py_assert False,
       invoke w (AsyncioSleep 5) ]"

definition TC011_steps :: "world \<Rightarrow> unit act list" where
  "TC011_steps w =
     [ scroll_window w,
       goto w ''http://localhost:8081/'',
       goto w ''http://localhost:8081'',
       goto w ''http://localhost:8081/settings'',
       goto w ''http://localhost:8081/user/settings'',
       goto w ''http://localhost:8081/profile/settings'',
       goto w ''http://localhost:8081'',
       scroll_window w,
       goto w ''http://localhost:8081'',
       py_assert False,
       invoke w (AsyncioSleep 5) ]"

text \<open>
  The assertion block of TC013 (lines 82 to 95).  Every value it tests is a constant assigned
  in the block itself; the world is not an argument.
\<close>

datatype pyval = PyStr string | PyInt int

definition TC013_assertions :: "unit act list" where
  "TC013_assertions =
     (let response_status = (401 :: int);
          logged_in_user_id = ''user123'';
          returned_user_id = ''user123'';
          aggregated_data = [(''trend'', PyStr ''positive''), (''count'', PyInt 100)];
          pii_fields = [''name'', ''email'', ''phone'', ''address'']
      in [ py_assert (response_status \<in> set [401, 403]),
           py_assert (returned_user_id = logged_in_user_id),
           for_each pii_fields (\<lambda>field. py_assert (field \<notin> fst ` set aggregated_data)) ])"

definition TC013_steps :: "world \<Rightarrow> unit act list" where
  "TC013_steps w =
     [ click_elem w None search_result,
       scroll_window w,
       click_elem w None search_result,
       click_elem w None search_result,
       click_elem w None ''xpath=html/body/div[6]/div[2]/div/div/div[2]/div/div/button'',
       click_elem w None search_result ]
     @ TC013_assertions
     @ [ invoke w (AsyncioSleep 5) ]"

definition TC014_steps :: "world \<Rightarrow> unit act list" where
  "TC014_steps w =
     [ goto w ''http://localhost:8081/'',
       goto w ''http://localhost:8081/debug'',
       goto w ''http://localhost:8081/'',
       goto w ''http://localhost:8081/logs'',
       click_elem w (Some anchor_frame_TC014) captcha_checkbox,
       click_elem w (Some challenge_frame_TC014) captcha_tile,
       click_elem w (Some challenge_frame_TC014) ''xpath=html/body/div/div/div[3]/div[2]/div/div[2]/button'',
       click_elem w (Some challenge_frame_TC014) ''xpath=html/body/div/div/div[3]/div[2]/div/div[2]/button'',
       py_assert False,
       invoke w (AsyncioSleep 5) ]"

text \<open>A script run: the scaffolding around the block of the script's statements.\<close>

definition run_script :: "(world \<Rightarrow> unit act list) \<Rightarrow> world \<Rightarrow> (exn + unit) \<times> call list" where
  "run_script steps w = run_test w (block (steps w))"

section \<open>Notions used to state the properties\<close>

text \<open>The closes the \<^verbatim>\<open>finally\<close> block is written to make, in its order, for given variables.\<close>

definition close_calls :: "vars \<Rightarrow> call list" where
  "close_calls v =
     (case context_var v of None \<Rightarrow> [] | Some _ \<Rightarrow> [ContextClose])
   @ (case browser_var v of None \<Rightarrow> [] | Some _ \<Rightarrow> [BrowserClose])
   @ (case pw_var v of None \<Rightarrow> [] | Some _ \<Rightarrow> [PlaywrightStop])"

definition is_wheel :: "call \<Rightarrow> bool" where
  "is_wheel c = (case c of MouseWheel x y \<Rightarrow> True | _ \<Rightarrow> False)"

text \<open>The wait that the frame loop issues for frame \<open>i\<close>.\<close>

definition frame_wait :: "nat \<Rightarrow> call" where
  "frame_wait i = FrameWaitForLoadState i ''domcontentloaded'' 3000"

text \<open>
  Sample worlds.  In \<open>calm\<close> nothing raises, the page has its main frame only and no element
  has text; \<open>failing c e\<close> is \<open>calm\<close> except that every call \<open>c\<close> raises \<open>e\<close>;
  \<open>blank_page\<close> is \<open>calm\<close> except that every element has the empty text; \<open>framed n\<close> is
  \<open>calm\<close> with \<open>n\<close> frames, and \<open>slow_frame n k\<close> is \<open>framed n\<close> where the wait for frame \<open>k\<close>
  times out.
\<close>

definition calm :: world where
  "calm = \<lparr> raises = (\<lambda>t c. None), frame_count = (\<lambda>t. 1), text_of = (\<lambda>t l. None) \<rparr>"

definition failing :: "call \<Rightarrow> exn \<Rightarrow> world" where
  "failing c e =
     \<lparr> raises = (\<lambda>t c'. if c' = c then Some e else None), frame_count = (\<lambda>t. 1),
       text_of = (\<lambda>t l. None) \<rparr>"

definition blank_page :: world where
  "blank_page = \<lparr> raises = (\<lambda>t c. None), frame_count = (\<lambda>t. 1), text_of = (\<lambda>t l. Some []) \<rparr>"

definition framed :: "nat \<Rightarrow> world" where
  "framed n = \<lparr> raises = (\<lambda>t c. None), frame_count = (\<lambda>t. n), text_of = (\<lambda>t l. None) \<rparr>"

definition slow_frame :: "nat \<Rightarrow> nat \<Rightarrow> world" where
  "slow_frame n k =
     \<lparr> raises = (\<lambda>t c. if c = frame_wait k then Some ApiTimeoutError else None),
       frame_count = (\<lambda>t. n), text_of = (\<lambda>t l. None) \<rparr>"

text \<open>
  A scenario of five statements whose third is a click, built from the statements of the
  scripts.
\<close>

definition five_steps :: "world \<Rightarrow> unit act list" where
  "five_steps w =
     [ goto w ''http://localhost:8081/'',
       goto w ''http://localhost:8081/debug'',
       click_elem w None search_result,
       goto w ''http://localhost:8081/home'',
       goto w ''http://localhost:8081/logs'' ]"

text \<open>
  The calls every run issues up to the end of line 45 when nothing raises and the page has
  one frame, and the variables once all three resources are acquired.
\<close>

definition base_calls :: "call list" where
  "base_calls =
     [ PlaywrightStart, ChromiumLaunch True launch_args, NewContext, SetDefaultTimeout 5000,
       NewPage, Goto ''http://localhost:8081'' (Some ''commit'') 10000,
       PageWaitForLoadState ''domcontentloaded'' 3000, frame_wait 0 ]"

definition all_vars :: vars where
  "all_vars = \<lparr> pw_var = Some Handle, browser_var = Some Handle, context_var = Some Handle \<rparr>"

text \<open>The six scripts of the repository.\<close>

definition all_scripts :: "(world \<Rightarrow> unit act list) list" where
  "all_scripts = [TC005_steps, TC006_steps, TC008_steps, TC011_steps, TC013_steps, TC014_steps]"

text \<open>The calls of the \<^verbatim>\<open>finally\<close> block.\<close>

definition is_close :: "call \<Rightarrow> bool" where
  "is_close c = (c = ContextClose \<or> c = BrowserClose \<or> c = PlaywrightStop)"

text \<open>In this run every close of the list \<open>cs\<close>, issued in order after the calls \<open>t\<close>, returns.\<close>

definition closes_return :: "world \<Rightarrow> call list \<Rightarrow> call list \<Rightarrow> bool" where
  "closes_return w t cs = (\<forall>i < length cs. raises w (t @ take i cs) (cs ! i) = None)"

text \<open>In this run the closes of \<open>cs\<close> before position \<open>k\<close> return and the one at position \<open>k\<close> raises \<open>e\<close>.\<close>

definition close_raises_at :: "world \<Rightarrow> call list \<Rightarrow> call list \<Rightarrow> nat \<Rightarrow> exn \<Rightarrow> bool" where
  "close_raises_at w t cs k e =
     (k < length cs \<and> (\<forall>i < k. raises w (t @ take i cs) (cs ! i) = None)
      \<and> raises w (t @ take k cs) (cs ! k) = Some e)"

text \<open>The calls a script may issue inside its \<^verbatim>\<open>try\<close> block: every call but the closes and the mouse wheel.\<close>

definition script_call :: "call \<Rightarrow> bool" where
  "script_call c = (\<not> is_close c \<and> \<not> is_wheel c)"

text \<open>An action that only adds calls satisfying \<open>P\<close>.\<close>

definition preserves :: "(call \<Rightarrow> bool) \<Rightarrow> 'a act \<Rightarrow> bool" where
  "preserves P m = (\<forall>t. list_all P t \<longrightarrow> list_all P (snd (m t)))"

text \<open>The part of \<open>close_calls\<close> that closes the context, and the part that closes the browser.\<close>

definition context_closes :: "vars \<Rightarrow> call list" where
  "context_closes v = (case context_var v of None \<Rightarrow> [] | Some _ \<Rightarrow> [ContextClose])"

definition browser_closes :: "vars \<Rightarrow> call list" where
  "browser_closes v = (case browser_var v of None \<Rightarrow> [] | Some _ \<Rightarrow> [BrowserClose])"

text \<open>A world where every call \<open>c\<close> raises \<open>e\<close> and every call \<open>d\<close> raises \<open>e'\<close>.\<close>

definition failing_two :: "call \<Rightarrow> exn \<Rightarrow> call \<Rightarrow> exn \<Rightarrow> world" where
  "failing_two c e d e' =
     \<lparr> raises = (\<lambda>t c'. if c' = c then Some e else if c' = d then Some e' else None),
       frame_count = (\<lambda>t. 1), text_of = (\<lambda>t l. None) \<rparr>"

section \<open>Basic facts about actions\<close>

lemmas act_defs =
  ret_def raise_def bind_def seq_def invoke_def try_except_api_pass_def py_assert_def close_if_def

lemma block_append:
  "block (xs @ ys) t =
     (case block xs t of (Inl e, t') \<Rightarrow> (Inl e, t') | (Inr u, t') \<Rightarrow> block ys t')"
  by (induction xs arbitrary: t) (auto simp: act_defs split: prod.splits sum.splits)

lemma block_cons:
  "block (x # xs) t =
     (case x t of (Inl e, t') \<Rightarrow> (Inl e, t') | (Inr u, t') \<Rightarrow> block xs t')"
  by (simp add: act_defs)

lemma try_block_vars:
  "try_block w interaction [] = (r, v, t) \<Longrightarrow>
     pw_var v = (if raises w [] PlaywrightStart = None then Some Handle else None)
   \<and> browser_var v =
       (if raises w [] PlaywrightStart = None
          \<and> raises w [PlaywrightStart] (ChromiumLaunch True launch_args) = None
        then Some Handle else None)
   \<and> context_var v =
       (if raises w [] PlaywrightStart = None
          \<and> raises w [PlaywrightStart] (ChromiumLaunch True launch_args) = None
          \<and> raises w [PlaywrightStart, ChromiumLaunch True launch_args] NewContext = None
        then Some Handle else None)"
  by (auto simp: try_block_def no_vars_def invoke_def split: option.splits prod.splits)

lemmas run_defs = run_script_def run_test_def try_block_def teardown_def open_page_def
  wait_frames_def no_vars_def goto_def click_elem_def

lemma scroll_window_raises: "scroll_window w t = (Inl NameError, t)"
  by (simp add: scroll_window_def load_global_def module_globals_def builtin_names_def act_defs)

lemma TC005_block: "block (TC005_steps w) t = (Inl NameError, t)"
  by (simp add: TC005_steps_def seq_def bind_def scroll_window_raises)

lemma try_block_plain:
  "\<forall>h c. c \<in> set base_calls \<longrightarrow> raises w h c = None \<Longrightarrow> frame_count w = (\<lambda>t. 1) \<Longrightarrow>
   try_block w interaction [] = (case interaction base_calls of (r, t) \<Rightarrow> (r, all_vars, t))"
  by (simp add: try_block_def open_page_def wait_frames_def act_defs base_calls_def
      all_vars_def frame_wait_def)

lemma failing_close_plain:
  "c \<in> {ContextClose, BrowserClose, PlaywrightStop} \<Longrightarrow>
   (\<forall>h c'. c' \<in> set base_calls \<longrightarrow> raises (failing c e) h c' = None)
   \<and> frame_count (failing c e) = (\<lambda>t. 1)"
  by (auto simp: failing_def base_calls_def frame_wait_def)

lemma calm_plain:
  "(\<forall>h c'. c' \<in> set base_calls \<longrightarrow> raises calm h c' = None) \<and> frame_count calm = (\<lambda>t. 1)"
  by (simp add: calm_def)

lemma teardown_returns:
  "closes_return w t (close_calls v) \<Longrightarrow> teardown w v t = (Inr (), t @ close_calls v)"
  by (cases "context_var v"; cases "browser_var v"; cases "pw_var v")
     (simp_all add: closes_return_def teardown_def close_calls_def act_defs less_Suc_eq all_conj_distrib)

lemma teardown_raises:
  "close_raises_at w t (close_calls v) k e \<Longrightarrow>
   teardown w v t = (Inl e, t @ take (Suc k) (close_calls v))"
  apply (cases "context_var v"; cases "browser_var v"; cases "pw_var v")
  apply (auto simp add: close_raises_at_def teardown_def close_calls_def act_defs less_Suc_eq all_conj_distrib nth_Cons split: nat.splits)
  done


lemma preserves_ret: "preserves P (ret x)"
  by (simp add: preserves_def ret_def)

lemma preserves_raise: "preserves P (raise e)"
  by (simp add: preserves_def raise_def)

lemma preserves_invoke: "P c \<Longrightarrow> preserves P (invoke w c)"
  by (simp add: preserves_def invoke_def split: option.splits)

lemma preserves_bind:
  "preserves P m \<Longrightarrow> (\<And>x. preserves P (k x)) \<Longrightarrow> preserves P (bind m k)"
  unfolding preserves_def bind_def
  by (auto split: prod.splits sum.splits)

lemma preserves_seq: "preserves P m \<Longrightarrow> preserves P n \<Longrightarrow> preserves P (seq m n)"
  by (simp add: seq_def preserves_bind)

lemma preserves_block: "list_all (preserves P) ms \<Longrightarrow> preserves P (block ms)"
  by (induction ms) (simp_all add: preserves_ret preserves_seq)

lemma preserves_try: "preserves P m \<Longrightarrow> preserves P (try_except_api_pass m)"
  unfolding preserves_def try_except_api_pass_def
  by (auto split: prod.splits sum.splits)

lemma preserves_for_each: "(\<And>x. preserves P (body x)) \<Longrightarrow> preserves P (for_each xs body)"
  by (induction xs) (simp_all add: preserves_ret preserves_seq)

lemma preserves_py_assert: "preserves P (py_assert c)"
  by (simp add: py_assert_def preserves_ret preserves_raise)

lemma preserves_scroll: "preserves P (scroll_window w)"
  by (simp add: preserves_def scroll_window_raises)

lemma preserves_text_content: "P (TextContent l) \<Longrightarrow> preserves P (text_content w l)"
  by (simp add: preserves_def text_content_def split: option.splits)

lemma preserves_py_in: "preserves P (py_in sub v)"
  by (simp add: py_in_def preserves_ret preserves_raise split: option.splits)

lemma script_call_simps [simp]:
  "script_call PlaywrightStart" "script_call (ChromiumLaunch h a)" "script_call NewContext"
  "script_call (SetDefaultTimeout n)" "script_call NewPage" "script_call (Goto u wu n)"
  "script_call (PageWaitForLoadState st n)" "script_call (FrameWaitForLoadState i st n)"
  "script_call ContextPagesLast" "script_call (WaitForTimeout n)" "script_call (Click l n)"
  "script_call (TextContent l)" "script_call (AsyncioSleep n)"
  "\<not> script_call (MouseWheel x y)" "\<not> script_call ContextClose" "\<not> script_call BrowserClose"
  "\<not> script_call PlaywrightStop"
  by (simp_all add: script_call_def is_close_def is_wheel_def)

lemma preserves_goto: "preserves script_call (goto w url)"
  by (simp add: goto_def preserves_invoke)

lemma preserves_click: "preserves script_call (click_elem w css xpath)"
  by (simp add: click_elem_def preserves_seq preserves_ret preserves_invoke)

lemma preserves_assert_text: "preserves script_call (assert_text w s)"
  by (simp add: assert_text_def preserves_bind preserves_text_content preserves_py_in
      preserves_py_assert)

lemma preserves_wait_frames: "preserves script_call (wait_frames w)"
proof -
  have "preserves script_call
     (for_each xs (\<lambda>i. try_except_api_pass (invoke w (FrameWaitForLoadState i ''domcontentloaded'' 3000))))"
    for xs
    by (rule preserves_for_each) (simp add: preserves_try preserves_invoke)
  then show ?thesis
    unfolding preserves_def wait_frames_def by blast
qed

lemma preserves_open_page: "preserves script_call (open_page w)"
  by (simp add: open_page_def preserves_seq preserves_ret preserves_invoke preserves_try preserves_wait_frames)

lemmas preserves_stmt = preserves_goto preserves_click preserves_assert_text preserves_scroll
  preserves_py_assert preserves_invoke preserves_for_each

lemma scripts_preserve:
  "steps \<in> set all_scripts \<Longrightarrow> preserves script_call (block (steps w))"
  apply (rule preserves_block)
  apply (auto simp: all_scripts_def TC005_steps_def TC006_steps_def TC006_assertions_def
      TC008_steps_def TC011_steps_def TC013_steps_def TC013_assertions_def TC014_steps_def
      preserves_stmt preserves_seq preserves_ret)
  done

lemma try_block_calls:
  assumes "preserves script_call interaction" "try_block w interaction [] = (r, v, t)"
  shows "list_all script_call t"
proof -
  have p: "preserves script_call (seq (open_page w) interaction)"
    by (simp add: preserves_seq preserves_open_page assms(1))
  have q: "list_all script_call (snd (seq (open_page w) interaction
     [PlaywrightStart, ChromiumLaunch True launch_args, NewContext]))"
    using p unfolding preserves_def by simp
  show ?thesis using assms(2) q
    by (auto simp: try_block_def invoke_def split: option.splits prod.splits)
qed

lemma try_block_append:
  "try_block w (block (xs @ ys)) [] =
     (case try_block w (block xs) [] of
        (Inl e, v, t) \<Rightarrow> (Inl e, v, t)
      | (Inr u, v, t) \<Rightarrow> (case block ys t of (r, t') \<Rightarrow> (r, v, t')))"
  by (auto simp: try_block_def block_append invoke_def seq_def bind_def
      split: option.splits prod.splits sum.splits)

lemma run_test_raises:
  "fst (try_block w interaction []) = Inl e \<Longrightarrow> \<exists>e'. fst (run_test w interaction) = Inl e'"
  by (auto simp: run_test_def split: prod.splits sum.splits)

lemma closes_return_Nil: "closes_return w t []"
  by (simp add: closes_return_def)

lemma closes_return_Cons:
  "closes_return w t (c # cs) = (raises w t c = None \<and> closes_return w (t @ [c]) cs)"
proof
  assume a: "closes_return w t (c # cs)"
  have "raises w t c = None"
    using a [unfolded closes_return_def, rule_format, of 0] by simp
  moreover have "raises w ((t @ [c]) @ take i cs) (cs ! i) = None" if "i < length cs" for i
    using a [unfolded closes_return_def, rule_format, of "Suc i"] that by simp
  ultimately show "raises w t c = None \<and> closes_return w (t @ [c]) cs"
    by (simp add: closes_return_def)
next
  assume b: "raises w t c = None \<and> closes_return w (t @ [c]) cs"
  show "closes_return w t (c # cs)"
    unfolding closes_return_def
  proof (intro allI impI)
    fix i assume "i < length (c # cs)"
    then show "raises w (t @ take i (c # cs)) ((c # cs) ! i) = None"
      using b by (cases i) (simp_all add: closes_return_def)
  qed
qed

lemma close_raises_at_0:
  "raises w t c = Some e \<Longrightarrow> close_raises_at w t (c # cs) 0 e"
  by (simp add: close_raises_at_def)

lemma close_raises_at_Suc:
  assumes "raises w t c = None" "close_raises_at w (t @ [c]) cs k e"
  shows "close_raises_at w t (c # cs) (Suc k) e"
  unfolding close_raises_at_def
proof (intro conjI allI impI)
  show "Suc k < length (c # cs)" using assms(2) by (simp add: close_raises_at_def)
  show "raises w (t @ take (Suc k) (c # cs)) ((c # cs) ! Suc k) = Some e"
    using assms(2) by (simp add: close_raises_at_def)
  fix i assume "i < Suc k"
  then show "raises w (t @ take i (c # cs)) ((c # cs) ! i) = None"
    using assms by (cases i) (simp_all add: close_raises_at_def)
qed

lemma closes_cases:
  "closes_return w t cs \<or> (\<exists>k e. close_raises_at w t cs k e)"
proof (induction cs arbitrary: t)
  case Nil
  show ?case by (simp add: closes_return_Nil)
next
  case (Cons c cs)
  show ?case
  proof (cases "raises w t c")
    case (Some e)
    then show ?thesis using close_raises_at_0 by blast
  next
    case None
    from Cons.IH [of "t @ [c]"] show ?thesis
    proof
      assume "closes_return w (t @ [c]) cs"
      then show ?thesis using None by (simp add: closes_return_Cons)
    next
      assume "\<exists>k e. close_raises_at w (t @ [c]) cs k e"
      then show ?thesis using None close_raises_at_Suc by blast
    qed
  qed
qed

lemma no_close_count:
  "list_all (\<lambda>c. \<not> is_close c) t \<Longrightarrow>
   count_list t ContextClose = 0 \<and> count_list t BrowserClose = 0 \<and> count_list t PlaywrightStop = 0"
  by (auto simp: count_list_0_iff list_all_iff is_close_def)

lemma count_close_calls:
  "count_list (close_calls v) ContextClose = (if context_var v = None then 0 else 1)
   \<and> count_list (close_calls v) BrowserClose = (if browser_var v = None then 0 else 1)
   \<and> count_list (close_calls v) PlaywrightStop = (if pw_var v = None then 0 else 1)"
  by (simp add: close_calls_def split: option.splits)

section \<open>Properties\<close>

text \<open>
  C9.  When starting the engine raises, or when launching the browser raises, no statement
  of the scenario runs: the \<^verbatim>\<open>try\<close> block is left at once and only the \<^verbatim>\<open>finally\<close> block
  follows.  After a failed start nothing was acquired and nothing is closed; after a failed
  launch the engine alone was acquired and the only call that follows is its stop.  In both
  cases \<^verbatim>\<open>run_test\<close> raises, for every interaction and every world.
\<close>

theorem launch_error_aborts:
  "(raises w [] PlaywrightStart = Some e \<longrightarrow>
      run_test w interaction = (Inl e, [PlaywrightStart]))
   \<and> (raises w [] PlaywrightStart = None
        \<and> raises w [PlaywrightStart] (ChromiumLaunch True launch_args) = Some e \<longrightarrow>
      snd (run_test w interaction)
        = [PlaywrightStart, ChromiumLaunch True launch_args, PlaywrightStop]
      \<and> fst (run_test w interaction)
        = (case raises w [PlaywrightStart, ChromiumLaunch True launch_args] PlaywrightStop of
             None \<Rightarrow> Inl e | Some e' \<Rightarrow> Inl e'))"
  by (auto simp: run_test_def try_block_def teardown_def no_vars_def act_defs
      split: option.splits)

theorem launch_error_aborts_witness:
  "run_script TC005_steps (failing PlaywrightStart OtherException)
     = (Inl OtherException, [PlaywrightStart])
   \<and> run_script TC005_steps (failing (ChromiumLaunch True launch_args) OtherException)
     = (Inl OtherException, [PlaywrightStart, ChromiumLaunch True launch_args, PlaywrightStop])"
proof -
  let ?a = "failing PlaywrightStart OtherException"
  let ?b = "failing (ChromiumLaunch True launch_args) OtherException"
  have a: "raises ?a [] PlaywrightStart = Some OtherException"
    by (simp add: failing_def)
  have b: "raises ?b [] PlaywrightStart = None
      \<and> raises ?b [PlaywrightStart] (ChromiumLaunch True launch_args) = Some OtherException"
    by (simp add: failing_def)
  have c: "raises ?b [PlaywrightStart, ChromiumLaunch True launch_args] PlaywrightStop = None"
    by (simp add: failing_def)
  from a launch_error_aborts [of ?a OtherException "block (TC005_steps ?a)"]
  have "run_script TC005_steps ?a = (Inl OtherException, [PlaywrightStart])"
    by (simp add: run_script_def)
  moreover from b c launch_error_aborts [of ?b OtherException "block (TC005_steps ?b)"]
  have "run_script TC005_steps ?b
     = (Inl OtherException, [PlaywrightStart, ChromiumLaunch True launch_args, PlaywrightStop])"
    by (simp add: run_script_def prod_eq_iff)
  ultimately show ?thesis by simp
qed

text \<open>
  C1, as the code has it.  On every exit of the \<^verbatim>\<open>try\<close> block (normal, a failed assertion,
  or an exception at any point, acquisition included) the \<^verbatim>\<open>finally\<close> block runs once and
  attempts the closes of the resources that were acquired, in the order context, browser,
  engine (the list \<open>close_calls v\<close>), stopping at the first close that raises.  Precisely, with
  \<open>t\<close> the calls issued by the \<^verbatim>\<open>try\<close> block: if the close at position \<open>k\<close> is the first
  that raises, the run ends with the first \<open>k + 1\<close> closes of the list and raises that error;
  if every close returns, the run issues the whole list and its outcome is the outcome of the
  \<^verbatim>\<open>try\<close> block; one of the two is always the case.  In the six scripts the \<^verbatim>\<open>try\<close> block
  itself issues no close, so when every close returns each acquired resource is closed exactly
  once and a resource that was not acquired is closed zero times.  A resource counts as
  acquired exactly when the call that acquires it was reached and returned.
\<close>

theorem teardown_closes_acquired_in_order:
  "try_block w interaction [] = (r, v, t) \<longrightarrow>
     (\<forall>k e. close_raises_at w t (close_calls v) k e \<longrightarrow>
        run_test w interaction = (Inl e, t @ take (Suc k) (close_calls v)))
   \<and> (closes_return w t (close_calls v) \<longrightarrow> run_test w interaction = (r, t @ close_calls v))
   \<and> (closes_return w t (close_calls v) \<or> (\<exists>k e. close_raises_at w t (close_calls v) k e))
   \<and> (\<forall>steps \<in> set all_scripts. interaction = block (steps w) \<longrightarrow>
        list_all (\<lambda>c. \<not> is_close c) t
        \<and> (closes_return w t (close_calls v) \<longrightarrow>
             count_list (snd (run_test w interaction)) ContextClose
               = (if context_var v = None then 0 else 1)
           \<and> count_list (snd (run_test w interaction)) BrowserClose
               = (if browser_var v = None then 0 else 1)
           \<and> count_list (snd (run_test w interaction)) PlaywrightStop
               = (if pw_var v = None then 0 else 1)))
   \<and> (pw_var v \<noteq> None \<longleftrightarrow> raises w [] PlaywrightStart = None)
   \<and> (browser_var v \<noteq> None \<longleftrightarrow>
        raises w [] PlaywrightStart = None
        \<and> raises w [PlaywrightStart] (ChromiumLaunch True launch_args) = None)
   \<and> (context_var v \<noteq> None \<longleftrightarrow>
        raises w [] PlaywrightStart = None
        \<and> raises w [PlaywrightStart] (ChromiumLaunch True launch_args) = None
        \<and> raises w [PlaywrightStart, ChromiumLaunch True launch_args] NewContext = None)"
proof (intro impI conjI allI ballI)
  assume tb: "try_block w interaction [] = (r, v, t)"
  show "run_test w interaction = (Inl e, t @ take (Suc k) (close_calls v))"
    if "close_raises_at w t (close_calls v) k e" for k e
    using tb teardown_raises [OF that] by (simp add: run_test_def)
  show ret: "run_test w interaction = (r, t @ close_calls v)"
    if "closes_return w t (close_calls v)"
    using tb teardown_returns [OF that] by (simp add: run_test_def)
  show "closes_return w t (close_calls v) \<or> (\<exists>k e. close_raises_at w t (close_calls v) k e)"
    by (rule closes_cases)
  note vs = try_block_vars [OF tb]
  show "pw_var v \<noteq> None \<longleftrightarrow> raises w [] PlaywrightStart = None" using vs by simp
  show "browser_var v \<noteq> None \<longleftrightarrow>
        raises w [] PlaywrightStart = None
        \<and> raises w [PlaywrightStart] (ChromiumLaunch True launch_args) = None" using vs by simp
  show "context_var v \<noteq> None \<longleftrightarrow>
        raises w [] PlaywrightStart = None
        \<and> raises w [PlaywrightStart] (ChromiumLaunch True launch_args) = None
        \<and> raises w [PlaywrightStart, ChromiumLaunch True launch_args] NewContext = None"
    using vs by simp
  fix steps assume st: "steps \<in> set all_scripts" "interaction = block (steps w)"
  have "list_all script_call t"
    using try_block_calls [OF scripts_preserve [OF st(1)]] tb st(2) by blast
  then show nc: "list_all (\<lambda>c. \<not> is_close c) t"
    by (simp add: list_all_iff script_call_def)
  assume cr: "closes_return w t (close_calls v)"
  show "count_list (snd (run_test w interaction)) ContextClose
      = (if context_var v = None then 0 else 1)"
    using ret [OF cr] no_close_count [OF nc] count_close_calls [of v] by simp
  show "count_list (snd (run_test w interaction)) BrowserClose
      = (if browser_var v = None then 0 else 1)"
    using ret [OF cr] no_close_count [OF nc] count_close_calls [of v] by simp
  show "count_list (snd (run_test w interaction)) PlaywrightStop
      = (if pw_var v = None then 0 else 1)"
    using ret [OF cr] no_close_count [OF nc] count_close_calls [of v] by simp
qed

text \<open>
  C1, two instances on TC005: in the world where nothing raises the three closes follow in
  order, once each; in the world where closing the browser raises the run ends with that
  close.
\<close>

theorem teardown_closes_acquired_in_order_witness:
  "run_script TC005_steps calm
     = (Inl NameError, base_calls @ [ContextClose, BrowserClose, PlaywrightStop])
   \<and> list_all (\<lambda>c. \<not> is_close c) base_calls
   \<and> count_list (snd (run_script TC005_steps calm)) ContextClose = 1
   \<and> count_list (snd (run_script TC005_steps calm)) BrowserClose = 1
   \<and> count_list (snd (run_script TC005_steps calm)) PlaywrightStop = 1
   \<and> run_script TC005_steps (failing BrowserClose OtherException)
     = (Inl OtherException, base_calls @ [ContextClose, BrowserClose])"
proof -
  let ?b = "failing BrowserClose OtherException"
  have cc: "close_calls all_vars = [ContextClose, BrowserClose, PlaywrightStop]"
    by (simp add: close_calls_def all_vars_def)
  have tb: "try_block calm (block (TC005_steps calm)) [] = (Inl NameError, all_vars, base_calls)"
    using calm_plain by (simp add: try_block_plain TC005_block)
  have cr: "closes_return calm base_calls (close_calls all_vars)"
    by (simp add: cc closes_return_Cons closes_return_Nil calm_def)
  have mem: "TC005_steps \<in> set all_scripts"
    by (simp add: all_scripts_def)
  note c = teardown_closes_acquired_in_order
             [of calm "block (TC005_steps calm)" "Inl NameError" all_vars base_calls,
              THEN mp, OF tb]
  note c2 = c [THEN conjunct2]
  note c4 = c2 [THEN conjunct2, THEN conjunct2, THEN conjunct1, THEN bspec, OF mem,
                THEN mp, OF refl]
  have r0: "run_test calm (block (TC005_steps calm))
      = (Inl NameError, base_calls @ close_calls all_vars)"
    by (rule c2 [THEN conjunct1, THEN mp, OF cr])
  have nc: "list_all (\<lambda>c. \<not> is_close c) base_calls"
    by (rule c4 [THEN conjunct1])
  note cnt = c4 [THEN conjunct2, THEN mp, OF cr]
  have tbb: "try_block ?b (block (TC005_steps ?b)) [] = (Inl NameError, all_vars, base_calls)"
    using failing_close_plain [of BrowserClose OtherException]
    by (simp add: try_block_plain TC005_block)
  have ra: "close_raises_at ?b base_calls (close_calls all_vars) (Suc 0) OtherException"
    by (simp add: cc close_raises_at_def failing_def)
  note b = teardown_closes_acquired_in_order
             [of ?b "block (TC005_steps ?b)" "Inl NameError" all_vars base_calls,
              THEN mp, OF tbb]
  have rb: "run_test ?b (block (TC005_steps ?b))
      = (Inl OtherException, base_calls @ take (Suc (Suc 0)) (close_calls all_vars))"
    by (rule b [THEN conjunct1, THEN spec, THEN spec, THEN mp, OF ra])
  have all: "context_var all_vars \<noteq> None \<and> browser_var all_vars \<noteq> None \<and> pw_var all_vars \<noteq> None"
    by (simp add: all_vars_def)
  show ?thesis
    using r0 nc cnt rb all by (simp add: run_script_def cc)
qed

text \<open>
  C1 as stated fails: in the run of TC005 where \<^verbatim>\<open>context.close()\<close> raises, the browser and
  the engine were acquired and neither is closed.
\<close>

theorem browser_left_open_counterexample:
  "run_script TC005_steps (failing ContextClose ApiError)
     = (Inl ApiError,
        [ PlaywrightStart, ChromiumLaunch True launch_args, NewContext, SetDefaultTimeout 5000,
          NewPage, Goto ''http://localhost:8081'' (Some ''commit'') 10000,
          PageWaitForLoadState ''domcontentloaded'' 3000,
          FrameWaitForLoadState 0 ''domcontentloaded'' 3000, ContextClose ])
   \<and> BrowserClose \<notin> set (snd (run_script TC005_steps (failing ContextClose ApiError)))
   \<and> PlaywrightStop \<notin> set (snd (run_script TC005_steps (failing ContextClose ApiError)))"
  by (simp add: run_defs TC005_block act_defs failing_def)

text \<open>
  C4, as the code has it.  Nothing in the \<^verbatim>\<open>finally\<close> block catches what a close raises.
  An error raised by closing the context, the browser or the engine propagates to the caller
  in place of the outcome of the \<^verbatim>\<open>try\<close> block, and the closes after the failing one are
  not executed: the run ends with the failing close.  When no close raises (each close that
  is attempted returns), all closes of the acquired resources are made and the outcome of the
  \<^verbatim>\<open>try\<close> block is the outcome of \<^verbatim>\<open>run_test\<close>.
\<close>

theorem teardown_error_propagates:
  "try_block w interaction [] = (r, v, t) \<longrightarrow>
     (\<forall>e. context_var v \<noteq> None \<and> raises w t ContextClose = Some e \<longrightarrow>
        run_test w interaction = (Inl e, t @ [ContextClose]))
   \<and> (\<forall>e. (context_var v \<noteq> None \<longrightarrow> raises w t ContextClose = None)
          \<and> browser_var v \<noteq> None
          \<and> raises w (t @ context_closes v) BrowserClose = Some e \<longrightarrow>
        run_test w interaction = (Inl e, t @ context_closes v @ [BrowserClose]))
   \<and> (\<forall>e. (context_var v \<noteq> None \<longrightarrow> raises w t ContextClose = None)
          \<and> (browser_var v \<noteq> None \<longrightarrow> raises w (t @ context_closes v) BrowserClose = None)
          \<and> pw_var v \<noteq> None
          \<and> raises w (t @ context_closes v @ browser_closes v) PlaywrightStop = Some e \<longrightarrow>
        run_test w interaction
          = (Inl e, t @ context_closes v @ browser_closes v @ [PlaywrightStop]))
   \<and> ((context_var v \<noteq> None \<longrightarrow> raises w t ContextClose = None)
        \<and> (browser_var v \<noteq> None \<longrightarrow> raises w (t @ context_closes v) BrowserClose = None)
        \<and> (pw_var v \<noteq> None \<longrightarrow>
             raises w (t @ context_closes v @ browser_closes v) PlaywrightStop = None) \<longrightarrow>
        run_test w interaction = (r, t @ close_calls v))"
proof (intro impI conjI allI)
  assume tb: "try_block w interaction [] = (r, v, t)"
  have rt: "run_test w interaction
      = (case teardown w v t of (Inl e, t') \<Rightarrow> (Inl e, t') | (Inr u, t') \<Rightarrow> (r, t'))"
    using tb by (simp add: run_test_def)
  show "run_test w interaction = (Inl e, t @ [ContextClose])"
    if "context_var v \<noteq> None \<and> raises w t ContextClose = Some e" for e
    using that by (cases "context_var v") (simp_all add: rt teardown_def act_defs)
  show "run_test w interaction = (Inl e, t @ context_closes v @ [BrowserClose])"
    if "(context_var v \<noteq> None \<longrightarrow> raises w t ContextClose = None)
          \<and> browser_var v \<noteq> None
          \<and> raises w (t @ context_closes v) BrowserClose = Some e" for e
    using that
    by (cases "context_var v"; cases "browser_var v")
       (simp_all add: rt teardown_def context_closes_def act_defs)
  show "run_test w interaction
          = (Inl e, t @ context_closes v @ browser_closes v @ [PlaywrightStop])"
    if "(context_var v \<noteq> None \<longrightarrow> raises w t ContextClose = None)
          \<and> (browser_var v \<noteq> None \<longrightarrow> raises w (t @ context_closes v) BrowserClose = None)
          \<and> pw_var v \<noteq> None
          \<and> raises w (t @ context_closes v @ browser_closes v) PlaywrightStop = Some e" for e
    using that
    by (cases "context_var v"; cases "browser_var v"; cases "pw_var v")
       (simp_all add: rt teardown_def context_closes_def browser_closes_def act_defs)
  show "run_test w interaction = (r, t @ close_calls v)"
    if "(context_var v \<noteq> None \<longrightarrow> raises w t ContextClose = None)
        \<and> (browser_var v \<noteq> None \<longrightarrow> raises w (t @ context_closes v) BrowserClose = None)
        \<and> (pw_var v \<noteq> None \<longrightarrow>
             raises w (t @ context_closes v @ browser_closes v) PlaywrightStop = None)"
    using that
    by (cases "context_var v"; cases "browser_var v"; cases "pw_var v")
       (simp_all add: rt teardown_def close_calls_def context_closes_def browser_closes_def
          act_defs)
qed

text \<open>
  C4, five instances on TC005: no close raises; closing the context raises; closing the
  browser raises; stopping the engine raises; creating the context raises and then closing
  the browser raises.
\<close>

theorem teardown_error_propagates_witness:
  "run_script TC005_steps calm
     = (Inl NameError, base_calls @ [ContextClose, BrowserClose, PlaywrightStop])
   \<and> run_script TC005_steps (failing ContextClose ApiError)
     = (Inl ApiError, base_calls @ [ContextClose])
   \<and> run_script TC005_steps (failing BrowserClose OtherException)
     = (Inl OtherException, base_calls @ [ContextClose, BrowserClose])
   \<and> run_script TC005_steps (failing PlaywrightStop ApiError)
     = (Inl ApiError, base_calls @ [ContextClose, BrowserClose, PlaywrightStop])
   \<and> run_script TC005_steps (failing_two NewContext OtherException BrowserClose ApiError)
     = (Inl ApiError,
        [PlaywrightStart, ChromiumLaunch True launch_args, NewContext, BrowserClose])"
proof -
  let ?c = "failing ContextClose ApiError"
  let ?b = "failing BrowserClose OtherException"
  let ?s = "failing PlaywrightStop ApiError"
  let ?n = "failing_two NewContext OtherException BrowserClose ApiError"
  let ?v = "\<lparr> pw_var = Some Handle, browser_var = Some Handle, context_var = None \<rparr>"
  let ?t = "[PlaywrightStart, ChromiumLaunch True launch_args, NewContext]"
  have cc: "close_calls all_vars = [ContextClose, BrowserClose, PlaywrightStop]"
      "context_closes all_vars = [ContextClose]" "browser_closes all_vars = [BrowserClose]"
      "context_closes ?v = []"
    by (simp_all add: close_calls_def context_closes_def browser_closes_def all_vars_def)
  have tb0: "try_block calm (block (TC005_steps calm)) [] = (Inl NameError, all_vars, base_calls)"
    using calm_plain by (simp add: try_block_plain TC005_block)
  have h0: "(context_var all_vars \<noteq> None \<longrightarrow> raises calm base_calls ContextClose = None)
      \<and> (browser_var all_vars \<noteq> None \<longrightarrow>
           raises calm (base_calls @ context_closes all_vars) BrowserClose = None)
      \<and> (pw_var all_vars \<noteq> None \<longrightarrow>
           raises calm (base_calls @ context_closes all_vars @ browser_closes all_vars)
             PlaywrightStop = None)"
    by (simp add: calm_def)
  note t0 = teardown_error_propagates
              [of calm "block (TC005_steps calm)" "Inl NameError" all_vars base_calls,
               THEN mp, OF tb0]
  have r0: "run_test calm (block (TC005_steps calm))
      = (Inl NameError, base_calls @ close_calls all_vars)"
    by (rule t0 [THEN conjunct2, THEN conjunct2, THEN conjunct2, THEN mp, OF h0])
  have tbc: "try_block ?c (block (TC005_steps ?c)) [] = (Inl NameError, all_vars, base_calls)"
    using failing_close_plain [of ContextClose ApiError]
    by (simp add: try_block_plain TC005_block)
  have hc: "context_var all_vars \<noteq> None \<and> raises ?c base_calls ContextClose = Some ApiError"
    by (simp add: all_vars_def failing_def)
  note tc = teardown_error_propagates
              [of ?c "block (TC005_steps ?c)" "Inl NameError" all_vars base_calls,
               THEN mp, OF tbc]
  have rc: "run_test ?c (block (TC005_steps ?c)) = (Inl ApiError, base_calls @ [ContextClose])"
    by (rule tc [THEN conjunct1, THEN spec, THEN mp, OF hc])
  have tbb: "try_block ?b (block (TC005_steps ?b)) [] = (Inl NameError, all_vars, base_calls)"
    using failing_close_plain [of BrowserClose OtherException]
    by (simp add: try_block_plain TC005_block)
  have hb: "(context_var all_vars \<noteq> None \<longrightarrow> raises ?b base_calls ContextClose = None)
      \<and> browser_var all_vars \<noteq> None
      \<and> raises ?b (base_calls @ context_closes all_vars) BrowserClose = Some OtherException"
    by (simp add: all_vars_def failing_def)
  note tbr = teardown_error_propagates
              [of ?b "block (TC005_steps ?b)" "Inl NameError" all_vars base_calls,
               THEN mp, OF tbb]
  have rb: "run_test ?b (block (TC005_steps ?b))
      = (Inl OtherException, base_calls @ context_closes all_vars @ [BrowserClose])"
    by (rule tbr [THEN conjunct2, THEN conjunct1, THEN spec, THEN mp, OF hb])
  have tbs: "try_block ?s (block (TC005_steps ?s)) [] = (Inl NameError, all_vars, base_calls)"
    using failing_close_plain [of PlaywrightStop ApiError]
    by (simp add: try_block_plain TC005_block)
  have hs: "(context_var all_vars \<noteq> None \<longrightarrow> raises ?s base_calls ContextClose = None)
      \<and> (browser_var all_vars \<noteq> None \<longrightarrow>
           raises ?s (base_calls @ context_closes all_vars) BrowserClose = None)
      \<and> pw_var all_vars \<noteq> None
      \<and> raises ?s (base_calls @ context_closes all_vars @ browser_closes all_vars)
            PlaywrightStop = Some ApiError"
    by (simp add: all_vars_def failing_def)
  note ts = teardown_error_propagates
              [of ?s "block (TC005_steps ?s)" "Inl NameError" all_vars base_calls,
               THEN mp, OF tbs]
  have rs: "run_test ?s (block (TC005_steps ?s))
      = (Inl ApiError,
         base_calls @ context_closes all_vars @ browser_closes all_vars @ [PlaywrightStop])"
    by (rule ts [THEN conjunct2, THEN conjunct2, THEN conjunct1, THEN spec, THEN mp, OF hs])
  have tbn: "try_block ?n (block (TC005_steps ?n)) [] = (Inl OtherException, ?v, ?t)"
    by (simp add: try_block_def invoke_def failing_two_def no_vars_def)
  have hn: "(context_var ?v \<noteq> None \<longrightarrow> raises ?n ?t ContextClose = None)
      \<and> browser_var ?v \<noteq> None
      \<and> raises ?n (?t @ context_closes ?v) BrowserClose = Some ApiError"
    by (simp add: failing_two_def)
  note tn = teardown_error_propagates
              [of ?n "block (TC005_steps ?n)" "Inl OtherException" ?v ?t, THEN mp, OF tbn]
  have rn: "run_test ?n (block (TC005_steps ?n))
      = (Inl ApiError, ?t @ context_closes ?v @ [BrowserClose])"
    by (rule tn [THEN conjunct2, THEN conjunct1, THEN spec, THEN mp, OF hn])
  show ?thesis
    using r0 rc rb rs rn by (simp add: run_script_def cc)
qed

text \<open>
  C4 as stated fails: in the run of TC014 where every step succeeds and \<^verbatim>\<open>context.close()\<close>
  raises, the \<^verbatim>\<open>try\<close> block ends with the \<^verbatim>\<open>AssertionError\<close> of its last assertion, yet
  \<^verbatim>\<open>run_test\<close> raises the error of the close, and neither the browser nor the engine is
  closed.
\<close>

theorem close_error_masks_counterexample:
  "fst (try_block (failing ContextClose ApiError)
          (block (TC014_steps (failing ContextClose ApiError))) []) = Inl AssertionError
   \<and> fst (run_script TC014_steps (failing ContextClose ApiError)) = Inl ApiError
   \<and> BrowserClose \<notin> set (snd (run_script TC014_steps (failing ContextClose ApiError)))
   \<and> PlaywrightStop \<notin> set (snd (run_script TC014_steps (failing ContextClose ApiError)))"
  by (simp add: run_defs TC014_steps_def act_defs failing_def)

end
